theory Spec2Isabelle
  imports Main
begin

section \<open>JavaScript strings\<close>

text \<open>
  A JavaScript string is modelled as a \<open>string\<close> (a list of 8-bit characters): the model
  covers the strings whose code units are below 256. The functions below are the string
  primitives that \<open>src/index.js\<close> uses: \<open>indexOf\<close>, \<open>split\<close> with a string separator,
  \<open>replace\<close> with a string pattern, \<open>trim\<close>, and the regular expressions of the script,
  each written out as the search it performs.
\<close>

fun starts_with :: "string \<Rightarrow> string \<Rightarrow> bool" where
  "starts_with [] s = True"
| "starts_with (p # ps) [] = False"
| "starts_with (p # ps) (c # cs) = (p = c \<and> starts_with ps cs)"

text \<open>\<open>hay.indexOf(needle)\<close>: the first position of \<open>needle\<close> in \<open>hay\<close>, or \<open>-1\<close>.\<close>

fun index_from :: "nat \<Rightarrow> string \<Rightarrow> string \<Rightarrow> int" where
  "index_from i needle [] = (if needle = [] then int i else - 1)"
| "index_from i needle (c # cs) =
     (if starts_with needle (c # cs) then int i else index_from (Suc i) needle cs)"

definition indexOf :: "string \<Rightarrow> string \<Rightarrow> int" where
  "indexOf hay needle = index_from 0 needle hay"

text \<open>
  The script tests \<open>~s.indexOf(x)\<close> for truthiness; the bitwise complement of a 32-bit
  integer is \<open>0\<close> (falsy) exactly for \<open>-1\<close>.
\<close>

definition tilde_truthy :: "int \<Rightarrow> bool" where
  "tilde_truthy i = (- i - 1 \<noteq> 0)"

text \<open>
  \<open>s.split(sep)\<close> for a non-empty separator string: the pieces between the
  non-overlapping occurrences of \<open>sep\<close>, scanning from the left. The result is never
  empty (\<open>''''.split(sep)\<close> is the list holding the empty string).
\<close>

fun split_acc :: "string \<Rightarrow> string \<Rightarrow> nat \<Rightarrow> string \<Rightarrow> string list" where
  "split_acc sep acc skip [] = [rev acc]"
| "split_acc sep acc (Suc k) (c # cs) = split_acc sep acc k cs"
| "split_acc sep acc 0 (c # cs) =
     (if sep \<noteq> [] \<and> starts_with sep (c # cs)
      then rev acc # split_acc sep [] (length sep - 1) cs
      else split_acc sep (c # acc) 0 cs)"

definition js_split :: "string \<Rightarrow> string \<Rightarrow> string list" where
  "js_split sep s = split_acc sep [] 0 s"

text \<open>\<open>s.replace(pat, '''')\<close> for a string pattern: the first occurrence is removed.\<close>

fun remove_first :: "string \<Rightarrow> string \<Rightarrow> string" where
  "remove_first pat [] = []"
| "remove_first pat (c # cs) =
     (if starts_with pat (c # cs) then drop (length pat) (c # cs)
      else c # remove_first pat cs)"

text \<open>
  \<open>s.trim()\<close>: white space and line terminators are removed at both ends (tab, line
  feed, vertical tab, form feed, carriage return, space, no-break space).
\<close>

definition is_space :: "char \<Rightarrow> bool" where
  "is_space c = (c \<in> set [CHR 0x09, CHR 0x0A, CHR 0x0B, CHR 0x0C, CHR 0x0D, CHR 0x20, CHR 0xA0])"

definition trim :: "string \<Rightarrow> string" where
  "trim s = rev (dropWhile is_space (rev (dropWhile is_space s)))"

text \<open>Case-insensitive matching (flag \<open>i\<close>) of a pattern of ASCII letters.\<close>

definition lower_char :: "char \<Rightarrow> char" where
  "lower_char c =
     (case map_of (zip ''ABCDEFGHIJKLMNOPQRSTUVWXYZ'' ''abcdefghijklmnopqrstuvwxyz'') c of
        None \<Rightarrow> c
      | Some l \<Rightarrow> l)"

definition lower :: "string \<Rightarrow> string" where
  "lower s = map lower_char s"

text \<open>\<open>/pat/.test(s)\<close> for a pattern without operators: \<open>pat\<close> occurs in \<open>s\<close>.\<close>

definition contains :: "string \<Rightarrow> string \<Rightarrow> bool" where
  "contains pat s = (indexOf s pat \<noteq> - 1)"

definition contains_ci :: "string \<Rightarrow> string \<Rightarrow> bool" where
  "contains_ci pat s = contains pat (lower s)"

text \<open>
  \<open>/.*[(](.*)[)]/\<close>: the dot matches no line terminator and both stars are greedy, so the
  match lies in the first line of \<open>s\<close> that has an opening parenthesis with a closing one
  after it; there the first star runs to the last opening parenthesis that still has a
  closing one after it, and the group runs to the last closing parenthesis of the line.
  The result is the captured group, \<open>None\<close> when \<open>match\<close> returns \<open>null\<close>.
\<close>

definition is_line_terminator :: "char \<Rightarrow> bool" where
  "is_line_terminator c = (c = CHR 0x0A \<or> c = CHR 0x0D)"

fun lines_acc :: "string \<Rightarrow> string \<Rightarrow> string list" where
  "lines_acc acc [] = [rev acc]"
| "lines_acc acc (c # cs) =
     (if is_line_terminator c then rev acc # lines_acc [] cs else lines_acc (c # acc) cs)"

definition split_last :: "char \<Rightarrow> string \<Rightarrow> (string \<times> string) option" where
  "split_last c s =
     (if c \<in> set s
      then Some (rev (tl (dropWhile (\<lambda>x. x \<noteq> c) (rev s))), rev (takeWhile (\<lambda>x. x \<noteq> c) (rev s)))
      else None)"

definition paren_group_line :: "string \<Rightarrow> string option" where
  "paren_group_line l =
     (case split_last (CHR 0x29) l of
        None \<Rightarrow> None
      | Some (before_close, after_close) \<Rightarrow>
          (case split_last (CHR 0x28) before_close of
             None \<Rightarrow> None
           | Some (before_open, grp) \<Rightarrow> Some grp))"

fun first_some :: "('a \<Rightarrow> 'b option) \<Rightarrow> 'a list \<Rightarrow> 'b option" where
  "first_some f [] = None"
| "first_some f (x # xs) = (case f x of None \<Rightarrow> first_some f xs | Some y \<Rightarrow> Some y)"

definition paren_group :: "string \<Rightarrow> string option" where
  "paren_group s = first_some paren_group_line (lines_acc [] s)"

text \<open>
  \<open>s.replace(/[+-] ?/, '''')\<close>: the first plus or minus sign goes, with the space after it
  if there is one.
\<close>

fun strip_marker :: "string \<Rightarrow> string" where
  "strip_marker [] = []"
| "strip_marker (c # cs) =
     (if c = CHR ''+'' \<or> c = CHR ''-''
      then (case cs of [] \<Rightarrow> [] | d # ds \<Rightarrow> if d = CHR '' '' then ds else d # ds)
      else c # strip_marker cs)"

section \<open>JavaScript values\<close>

text \<open>
  The values a theme id, an environment setting or a deploy target can be. Numbers are
  the integers that print in plain decimal notation (theme ids are such integers).
\<close>

datatype jsval = JUndefined | JBool bool | JNum int | JStr string

fun truthy :: "jsval \<Rightarrow> bool" where
  "truthy JUndefined = False"
| "truthy (JBool b) = b"
| "truthy (JNum n) = (n \<noteq> 0)"
| "truthy (JStr s) = (s \<noteq> [])"

fun string_of_nat :: "nat \<Rightarrow> string" where
  "string_of_nat n =
     (if n < 10 then [''0123456789'' ! n]
      else string_of_nat (n div 10) @ [''0123456789'' ! (n mod 10)])"

declare string_of_nat.simps [simp del]

text \<open>\<open>'''' + v\<close>, the string a value is compared by.\<close>

fun js_string :: "jsval \<Rightarrow> string" where
  "js_string JUndefined = ''undefined''"
| "js_string (JBool b) = (if b then ''true'' else ''false'')"
| "js_string (JNum n) =
     (if n < 0 then CHR ''-'' # string_of_nat (nat (- n)) else string_of_nat (nat n))"
| "js_string (JStr s) = s"

text \<open>\<open>x || d\<close> for an environment variable \<open>x\<close>: unset or empty gives the default.\<close>

definition or_default :: "string option \<Rightarrow> jsval \<Rightarrow> jsval" where
  "or_default x d = (case x of None \<Rightarrow> d | Some s \<Rightarrow> if s = [] then d else JStr s)"

section \<open>Data model\<close>

text \<open>
  A theme as the platform's \<open>themes.json\<close> lists it: the name and the role are strings,
  and \<open>updated_at\<close> is the instant the field denotes, in milliseconds since the epoch
  (what \<open>new Date\<close> and \<open>moment\<close> make of a valid date).
\<close>

record theme =
  theme_id :: jsval
  name :: string
  role :: string
  updated_at :: int

text \<open>The constants the script reads from the environment at start.\<close>

record config =
  STAGE :: jsval
  IS_QUICK_TEST :: jsval
  BASE_THEME :: jsval

definition config_of_env :: "(string \<Rightarrow> string option) \<Rightarrow> config" where
  "config_of_env env =
     \<lparr> STAGE = or_default (env ''STAGE'') (JStr ''backup''),
       IS_QUICK_TEST = or_default (env ''IS_QUICK_TEST'') (JBool False),
       BASE_THEME = or_default (env ''BASE_THEME'') (JBool False) \<rparr>"

datatype js_error =
    TypeError
  | Error string
  | External nat

text \<open>What a deploy is handed as \<open>theme_id\<close>: a value, or a whole theme object.\<close>

datatype deploy_arg = Value jsval | Object theme

text \<open>
  The environment of one run: what each external call answers. \<open>External n\<close> is an error
  object that comes from outside (a failed command, request or tool). The credentials
  are passed through to the tools unchanged and are left out.
\<close>

record world =
  cwd :: string
  tmp_exists :: bool
  rm_tmp_before :: "js_error option"
  mkdir_tmp :: "js_error option"
  chdir_tmp :: "js_error option"
  git_branch :: "js_error option \<times> string"
  themes_response :: "js_error + theme list"
  git_fetch :: "js_error option"
  git_cherry :: "string \<Rightarrow> js_error option \<times> string"
  now :: int
  tk_download :: "jsval \<Rightarrow> bool"
  tk_new :: "js_error option"
  tmp_config_theme_id :: "js_error + jsval"
  chdir_root :: "js_error option"
  brrl :: "deploy_arg \<Rightarrow> js_error option"
  rm_tmp_after :: "js_error option"

definition TMP_DIR :: "world \<Rightarrow> string" where
  "TMP_DIR w = cwd w @ ''/tmp''"

section \<open>Effects\<close>

text \<open>
  A run is the list of the external calls it made, in order, and how it ended: a value
  (a resolved promise, a returned value), an error (a rejected promise, a thrown
  exception) or the end of the process by \<open>process.exit()\<close>, after which nothing
  runs. A logged line is recorded by its text (the colour of a line is left out).
\<close>

datatype event =
    Log string
  | Exec string
  | Mkdir string
  | Chdir string
  | HttpGetThemes
  | TkDownload jsval
  | TkNew string
  | ReadTmpConfig
  | Brrl deploy_arg
  | ProcessExit

datatype 'a outcome = Ok 'a | Fail js_error | Exit

type_synonym 'a proc = "event list \<times> 'a outcome"

definition pbind :: "'a proc \<Rightarrow> ('a \<Rightarrow> 'b proc) \<Rightarrow> 'b proc" where
  "pbind m f =
     (case snd m of
        Ok x \<Rightarrow> (fst m @ fst (f x), snd (f x))
      | Fail e \<Rightarrow> (fst m, Fail e)
      | Exit \<Rightarrow> (fst m, Exit))"

definition lift :: "js_error + 'a \<Rightarrow> 'a proc" where
  "lift r = (case r of Inl e \<Rightarrow> ([], Fail e) | Inr x \<Rightarrow> ([], Ok x))"

definition of_err :: "js_error option \<Rightarrow> unit outcome" where
  "of_err r = (case r of None \<Rightarrow> Ok () | Some e \<Rightarrow> Fail e)"

section \<open>Theme names\<close>

text \<open>
  \<open>let [env = 'DEV', commit = ''''] = name.split(' - ')\<close>: the first two pieces of the name.
  A default stands in for a missing piece only; \<open>split\<close> always gives a first piece.
\<close>

definition env_of_name :: "string \<Rightarrow> string" where
  "env_of_name n = (case js_split '' - '' n of [] \<Rightarrow> ''DEV'' | e # rest \<Rightarrow> e)"

definition commit_of_name :: "string \<Rightarrow> string" where
  "commit_of_name n =
     (case js_split '' - '' n of
        [] \<Rightarrow> []
      | e # rest \<Rightarrow> (case rest of [] \<Rightarrow> [] | c # others \<Rightarrow> c))"

text \<open>
  \<open>if (~commit.indexOf('(')) commit = commit.match(/.*[(](.*)[)]/)[1]\<close>; indexing the
  \<open>null\<close> of a failed match throws a \<open>TypeError\<close>.
\<close>

definition commit_token :: "string \<Rightarrow> js_error + string" where
  "commit_token commit =
     (if tilde_truthy (indexOf commit [CHR 0x28])
      then (case paren_group commit of None \<Rightarrow> Inl TypeError | Some g \<Rightarrow> Inr g)
      else Inr commit)"

definition is_staging :: "string \<Rightarrow> bool" where
  "is_staging env = (contains_ci ''staging'' env \<or> contains_ci ''stage'' env)"

definition is_live_or_stage :: "string \<Rightarrow> bool" where
  "is_live_or_stage env = (contains_ci ''live'' env \<or> contains_ci ''stage'' env)"

section \<open>The search for a staging theme of the branch\<close>

definition seven_days :: int where
  "seven_days = 7 * 24 * 60 * 60 * 1000"

text \<open>
  \<open>commits.find(str => ~str.indexOf(commit))\<close> gives the commit message itself, and the
  script tests that for truthiness.
\<close>

definition commit_found :: "string list \<Rightarrow> string \<Rightarrow> bool" where
  "commit_found commits commit =
     (case find (\<lambda>str. tilde_truthy (indexOf str commit)) commits of
        None \<Rightarrow> False
      | Some str \<Rightarrow> str \<noteq> [])"

text \<open>
  The callback of the \<open>reduce\<close> in \<open>isAlreadyDeployedThemeForBranch\<close>; \<open>None\<close> is the
  accumulator \<open>false\<close>. \<open>moment().subtract('7', 'Days')\<close> is seven times 24 hours before
  the time of the run.
\<close>

definition found_step ::
  "world \<Rightarrow> string list \<Rightarrow> bool \<Rightarrow> theme option \<Rightarrow> theme \<Rightarrow> js_error + theme option" where
  "found_step w commits noLessThan7DaysOld isFound t =
     (let env = env_of_name (name t); commit0 = commit_of_name (name t) in
      if isFound \<noteq> None then Inr isFound
      else (case commit_token commit0 of
              Inl e \<Rightarrow> Inl e
            | Inr commit \<Rightarrow>
                if \<not> is_staging env then Inr None
                else if \<not> commit_found commits commit then Inr None
                else if noLessThan7DaysOld \<and> updated_at t < now w - seven_days then Inr None
                else Inr (Some t)))"

fun reduce :: "('s \<Rightarrow> 'a \<Rightarrow> js_error + 's) \<Rightarrow> 's \<Rightarrow> 'a list \<Rightarrow> js_error + 's" where
  "reduce f acc [] = Inr acc"
| "reduce f acc (x # xs) = (case f acc x of Inl e \<Rightarrow> Inl e | Inr acc' \<Rightarrow> reduce f acc' xs)"

definition isAlreadyDeployedThemeForBranch ::
  "world \<Rightarrow> theme list \<Rightarrow> string option \<Rightarrow> string list \<Rightarrow> bool \<Rightarrow> js_error + theme option" where
  "isAlreadyDeployedThemeForBranch w themes branch commits noLessThan7DaysOld =
     reduce (found_step w commits noLessThan7DaysOld) None themes"

section \<open>Base selection\<close>

text \<open>
  \<open>getBase\<close> returns a promise of a theme, except under \<open>BASE_THEME\<close>, where it returns what
  \<open>themes.find\<close> gave: a theme or \<open>undefined\<close>, no promise. With no theme of role
  \<open>main\<close>, reading \<open>publishedTheme.name\<close> throws.
\<close>

datatype base_ret = Promised theme | Unwrapped "theme option"

definition getBase :: "config \<Rightarrow> theme list \<Rightarrow> bool \<Rightarrow> base_ret proc" where
  "getBase cfg themes forcePublished =
     (case find (\<lambda>t. role t = ''main'') themes of
        None \<Rightarrow> ([], Fail TypeError)
      | Some publishedTheme \<Rightarrow>
          (let env = env_of_name (name publishedTheme) in
           if truthy (BASE_THEME cfg)
           then ([], Ok (Unwrapped
                   (find (\<lambda>t. js_string (theme_id t) = js_string (BASE_THEME cfg)) themes)))
           else if forcePublished then ([], Ok (Promised publishedTheme))
           else if is_live_or_stage env then ([], Ok (Promised publishedTheme))
           else (case find (\<lambda>t. is_live_or_stage (env_of_name (name t))) themes of
                   None \<Rightarrow>
                     ([Log ''No base theme could be found. Duplication not possible.'',
                       ProcessExit], Exit)
                 | Some unpublishedBase \<Rightarrow> ([], Ok (Promised unpublishedBase)))))"

text \<open>\<open>getBase(...).then(f)\<close>: a value that is no promise has no \<open>then\<close>.\<close>

definition then_base :: "base_ret \<Rightarrow> (theme \<Rightarrow> 'a proc) \<Rightarrow> 'a proc" where
  "then_base r f = (case r of Promised t \<Rightarrow> f t | Unwrapped u \<Rightarrow> ([], Fail TypeError))"

section \<open>Duplication and deploy\<close>

text \<open>
  The calls of the theme tool and of the build-and-deploy tool answer as the environment
  says. A failed download is rethrown as the error \<open>Themekit download failed\<close>; the id
  of the new theme is read from the scratch configuration, and reading it may fail.
\<close>

definition downloadTheme :: "config \<Rightarrow> world \<Rightarrow> theme \<Rightarrow> unit proc" where
  "downloadTheme cfg w t =
     (if truthy (IS_QUICK_TEST cfg) then ([], Ok ())
      else ([Log ''Downloading theme'', Log (''Theme Name: '' @ name t),
             TkDownload (theme_id t)],
            if tk_download w (theme_id t) then Ok ()
            else Fail (Error ''Themekit download failed'')))"

definition uploadBaseToNewTheme :: "config \<Rightarrow> world \<Rightarrow> jsval proc" where
  "uploadBaseToNewTheme cfg w =
     pbind
       (if truthy (IS_QUICK_TEST cfg) then ([], Ok ())
        else ([Log ''Uploading new theme!'', TkNew ''[DEPLOYMENT IN PROGRESS]''],
              of_err (tk_new w)))
       (\<lambda>u. ([ReadTmpConfig],
              case tmp_config_theme_id w of Inl e \<Rightarrow> Fail e | Inr v \<Rightarrow> Ok v))"

definition duplicateCurrentBase :: "config \<Rightarrow> world \<Rightarrow> theme list \<Rightarrow> bool \<Rightarrow> jsval proc" where
  "duplicateCurrentBase cfg w themes forcePublished =
     pbind (getBase cfg themes forcePublished)
       (\<lambda>r. then_base r
          (\<lambda>t. pbind (downloadTheme cfg w t) (\<lambda>u. uploadBaseToNewTheme cfg w)))"

definition buildAndDeploy :: "world \<Rightarrow> deploy_arg \<Rightarrow> unit proc" where
  "buildAndDeploy w themeId =
     pbind ([Chdir (TMP_DIR w @ ''/..'')], of_err (chdir_root w))
       (\<lambda>u. ([Brrl themeId], of_err (brrl w themeId)))"

section \<open>Branch inspection, theme listing, scratch directory\<close>

text \<open>
  The \<open>reduce\<close> over the lines of \<open>git branch\<close>; \<open>None\<close> is the accumulator \<open>false\<close> or
  \<open>undefined\<close>. A branch that is \<open>undefined\<close> is tested as the text \<open>undefined\<close>.
\<close>

definition active_step :: "string option \<Rightarrow> string \<Rightarrow> string option" where
  "active_step found branch =
     (if (case found of None \<Rightarrow> False | Some s \<Rightarrow> s \<noteq> []) then found
      else if tilde_truthy (indexOf branch ''*'') then Some (trim (remove_first ''* '' branch))
      else None)"

definition active_branch :: "string \<Rightarrow> string option" where
  "active_branch stdout = foldl active_step None (js_split [CHR 0x0A] stdout)"

definition branch_text :: "string option \<Rightarrow> string" where
  "branch_text b = (case b of None \<Rightarrow> ''undefined'' | Some s \<Rightarrow> s)"

definition getBranch :: "world \<Rightarrow> string option proc" where
  "getBranch w =
     ([Log ''Getting current branch'', Exec ''git branch''],
      case fst (git_branch w) of
        Some e \<Rightarrow> Fail e
      | None \<Rightarrow> Ok (active_branch (snd (git_branch w))))"

definition cherry_commits :: "string \<Rightarrow> string list" where
  "cherry_commits stdout =
     filter (\<lambda>commit. commit \<noteq> [])
       (map (\<lambda>commit. trim (strip_marker commit)) (js_split [CHR 0x0A] stdout))"

definition gitBase :: "string option \<Rightarrow> string" where
  "gitBase branch = (if contains ''develop'' (branch_text branch) then ''master'' else ''develop'')"

text \<open>
  After a failed \<open>git fetch\<close> the promise is rejected and the callback goes on to run
  \<open>git cherry\<close>; the callback of \<open>git cherry\<close> does not look at its \<open>err\<close>.
\<close>

definition getCommits :: "world \<Rightarrow> string option \<Rightarrow> string list proc" where
  "getCommits w branch =
     ([Log (''Running '' @ [CHR 0x27] @ ''git fetch --all'' @ [CHR 0x27]),
       Exec ''git fetch --all'',
       Log (''git '' @ [CHR 0x27] @ ''cherry -v '' @ gitBase branch @ [CHR 0x27]),
       Exec (''git cherry -v '' @ gitBase branch)],
      case git_fetch w of
        Some e \<Rightarrow> Fail e
      | None \<Rightarrow> Ok (cherry_commits (snd (git_cherry w (gitBase branch)))))"

definition listThemes :: "world \<Rightarrow> theme list proc" where
  "listThemes w =
     (case themes_response w of
        Inl e \<Rightarrow> ([HttpGetThemes], Fail e)
      | Inr themes \<Rightarrow>
          ([HttpGetThemes, Log ''Existing themes fetched''],
           Ok (sort_key (\<lambda>t. - updated_at t) themes)))"

definition prepareTmp :: "config \<Rightarrow> world \<Rightarrow> unit proc" where
  "prepareTmp cfg w =
     pbind
       (if tmp_exists w \<and> \<not> truthy (IS_QUICK_TEST cfg)
        then ([Log ''Removing existing tmp directory'', Exec (''rm -r '' @ TMP_DIR w)],
              of_err (rm_tmp_before w))
        else ([Log ''Removing existing tmp directory''], Ok ()))
       (\<lambda>u. pbind
          (if \<not> truthy (IS_QUICK_TEST cfg) then ([Mkdir (TMP_DIR w)], of_err (mkdir_tmp w))
           else ([], Ok ()))
          (\<lambda>u. ([Chdir (TMP_DIR w)], of_err (chdir_tmp w))))"

definition removeTmp :: "config \<Rightarrow> world \<Rightarrow> unit proc" where
  "removeTmp cfg w =
     (if truthy (IS_QUICK_TEST cfg) then ([], Ok ())
      else ([Log ''Removing tmp directory'', Exec (''rm -r '' @ TMP_DIR w)],
            of_err (rm_tmp_after w)))"

text \<open>
  \<open>Promise.all\<close>: the three operations all run, and the join is rejected when one of them
  is. The calls are listed operation by operation, and of several rejections the one of
  the earlier operation is reported (in a run, the calls interleave and the rejection
  that comes first in time is).
\<close>

definition join3 :: "'a proc \<Rightarrow> 'b proc \<Rightarrow> 'c proc \<Rightarrow> ('a \<times> 'b \<times> 'c) proc" where
  "join3 p q r =
     (fst p @ fst q @ fst r,
      case snd p of
        Fail e \<Rightarrow> Fail e
      | Exit \<Rightarrow> Exit
      | Ok a \<Rightarrow>
          (case snd q of
             Fail e \<Rightarrow> Fail e
           | Exit \<Rightarrow> Exit
           | Ok b \<Rightarrow> (case snd r of Fail e \<Rightarrow> Fail e | Exit \<Rightarrow> Exit | Ok c \<Rightarrow> Ok (a, b, c))))"

section \<open>The main routine and the whole run\<close>

text \<open>
  The tests \<open>/feature|hotfix|bugfix|develop/i.test(branch)\<close> and \<open>/master/i.test(branch)\<close>,
  and the callback that starts with the line \<open>Running main routine\<close>. The freshness
  flag it hands to the search is \<open>/develop/.test(branch)\<close>, which is case-sensitive.
\<close>

definition is_work_branch :: "string option \<Rightarrow> bool" where
  "is_work_branch branch =
     (contains_ci ''feature'' (branch_text branch) \<or> contains_ci ''hotfix'' (branch_text branch)
      \<or> contains_ci ''bugfix'' (branch_text branch) \<or> contains_ci ''develop'' (branch_text branch))"

definition is_master :: "string option \<Rightarrow> bool" where
  "is_master branch = contains_ci ''master'' (branch_text branch)"

definition mainRoutine ::
  "config \<Rightarrow> world \<Rightarrow> string option \<Rightarrow> theme list \<Rightarrow> string list \<Rightarrow> unit proc" where
  "mainRoutine cfg w branch themes commits =
     pbind ([Log ''Running main routine''], Ok ())
       (\<lambda>u. if is_work_branch branch
          then pbind
                 (pbind
                    (lift (isAlreadyDeployedThemeForBranch w themes branch commits
                             (contains ''develop'' (branch_text branch))))
                    (\<lambda>existingTheme.
                       case existingTheme of
                         Some t \<Rightarrow>
                           ([Log ''Existing base found!'', Log (''Theme Name: '' @ name t)],
                            Ok (theme_id t))
                       | None \<Rightarrow>
                           pbind ([Log ''No existing base found''], Ok ())
                             (\<lambda>u. duplicateCurrentBase cfg w themes False)))
                 (\<lambda>themeID. buildAndDeploy w (Value themeID))
          else if is_master branch \<and> STAGE cfg = JStr ''backup''
          then pbind (duplicateCurrentBase cfg w themes True) (\<lambda>v. ([], Ok ()))
          else if is_master branch \<and> STAGE cfg = JStr ''deploy''
          then pbind (getBase cfg themes True)
                 (\<lambda>r. then_base r (\<lambda>themeID. buildAndDeploy w (Object themeID)))
          else ([], Ok ()))"

text \<open>
  The promise chain of the script, from the three joined operations to the removal of
  the scratch directory. (The first logged line and the loading of the credentials, which
  come before it, are left out.)
\<close>

definition run :: "config \<Rightarrow> world \<Rightarrow> unit proc" where
  "run cfg w =
     pbind (join3 (prepareTmp cfg w) (getBranch w) (listThemes w))
       (\<lambda>(changeDirSuccess, branch, themes).
          pbind (getCommits w branch)
            (\<lambda>commits.
               pbind (mainRoutine cfg w branch themes commits) (\<lambda>u. removeTmp cfg w)))"

section \<open>Example inputs\<close>

text \<open>The configuration of a run with no environment variable set.\<close>

definition cfg_default :: config where
  "cfg_default = config_of_env (\<lambda>v. None)"

text \<open>
  The configuration of a run with \<open>IS_QUICK_TEST=1\<close>, and of one with \<open>BASE_THEME=2\<close> and
  \<open>STAGE=deploy\<close>.
\<close>

definition cfg_quick :: config where
  "cfg_quick = config_of_env (\<lambda>v. if v = ''IS_QUICK_TEST'' then Some ''1'' else None)"


definition dev_main :: theme where
  "dev_main = \<lparr> theme_id = JNum 1, name = ''DEV - x'', role = ''main'', updated_at = 0 \<rparr>"

definition stage_y :: theme where
  "stage_y = \<lparr> theme_id = JNum 2, name = ''STAGE - y'', role = ''other'', updated_at = 0 \<rparr>"

definition live_main :: theme where
  "live_main = \<lparr> theme_id = JNum 1, name = ''LIVE - shop'', role = ''main'', updated_at = 0 \<rparr>"

definition dev_123 :: theme where
  "dev_123 = \<lparr> theme_id = JNum 123, name = ''DEV - try'', role = ''unpublished'', updated_at = 0 \<rparr>"

text \<open>
  A run in which every external call succeeds: \<open>git branch\<close> and \<open>git cherry\<close> print
  \<open>out_branch\<close> and \<open>out_cherry\<close>, the platform lists \<open>themes\<close>, the time is \<open>t\<close>, and the
  scratch configuration holds the theme id 42.
\<close>

definition world_ok :: "string \<Rightarrow> string \<Rightarrow> theme list \<Rightarrow> int \<Rightarrow> world" where
  "world_ok out_branch out_cherry themes t =
     \<lparr> cwd = ''/repo'', tmp_exists = True, rm_tmp_before = None, mkdir_tmp = None,
       chdir_tmp = None, git_branch = (None, out_branch), themes_response = Inr themes,
       git_fetch = None, git_cherry = (\<lambda>base. (None, out_cherry)), now = t,
       tk_download = (\<lambda>i. True), tk_new = None, tmp_config_theme_id = Inr (JNum 42),
       chdir_root = None, brrl = (\<lambda>a. None), rm_tmp_after = None \<rparr>"

text \<open>The output of \<open>git branch\<close> on the branch \<open>feature/x\<close>, and of \<open>git cherry -v\<close>.\<close>

definition out_feature :: string where
  "out_feature = ''  develop'' @ [CHR 0x0A] @ ''* feature/x'' @ [CHR 0x0A] @ ''  master'' @ [CHR 0x0A]"

definition out_cherry :: string where
  "out_cherry = ''+ abc123 fix the bug'' @ [CHR 0x0A] @ ''+ def456 add a test'' @ [CHR 0x0A]"

definition stage_bare :: theme where
  "stage_bare = \<lparr> theme_id = JNum 7, name = ''STAGE'', role = ''unpublished'', updated_at = 0 \<rparr>"

text \<open>A staging theme of the commit \<open>abc123\<close>, last updated at the instant \<open>upd\<close>.\<close>

definition stage_abc :: "int \<Rightarrow> theme" where
  "stage_abc upd =
     \<lparr> theme_id = JNum 5, name = ''STAGE - fix-bug (abc123)'', role = ''unpublished'',
       updated_at = upd \<rparr>"


text \<open>
  A run on the branch \<open>feature/x\<close> of a store with the published \<open>LIVE - shop\<close> and a
  staging theme of the commit \<open>abc123\<close>, in which \<open>git cherry\<close> fails (exit status 128,
  nothing printed) and every other call succeeds.
\<close>

definition world_cherry_fails :: world where
  "world_cherry_fails =
     (world_ok out_feature out_cherry [live_main, stage_abc 0] 0)
       \<lparr> git_cherry := (\<lambda>base. (Some (External 128), [])) \<rparr>"

section \<open>Classes of external calls\<close>


definition is_duplication :: "event \<Rightarrow> bool" where
  "is_duplication e = (case e of TkDownload i \<Rightarrow> True | TkNew n \<Rightarrow> True | _ \<Rightarrow> False)"

definition is_removal :: "event \<Rightarrow> bool" where
  "is_removal e = (case e of Exec c \<Rightarrow> starts_with ''rm '' c | _ \<Rightarrow> False)"

text \<open>A call that is neither of a duplication nor a removal.\<close>

definition quiet :: "event \<Rightarrow> bool" where
  "quiet e = (\<not> is_duplication e \<and> \<not> is_removal e)"

section \<open>Facts about the string functions\<close>

lemma split_acc_no_sep:
  "index_from i sep s = - 1 \<Longrightarrow> split_acc sep acc 0 s = [rev acc @ s]"
  by (induction s arbitrary: i acc) (auto split: if_splits)

lemma js_split_no_sep: "\<not> contains sep s \<Longrightarrow> js_split sep s = [s]"
  using split_acc_no_sep [of 0 sep s "[]"] by (simp add: contains_def indexOf_def js_split_def)




lemma index_from_empty: "index_from i [] s = int i"
  by (cases s) auto



lemma commit_of_name_no_sep: "\<not> contains '' - '' n \<Longrightarrow> commit_of_name n = []"
  by (simp add: js_split_no_sep commit_of_name_def)

lemma env_of_name_no_sep: "\<not> contains '' - '' n \<Longrightarrow> env_of_name n = n"
  by (simp add: js_split_no_sep env_of_name_def)

lemma commit_token_empty: "commit_token [] = Inr []"
  by (simp add: commit_token_def indexOf_def tilde_truthy_def)

section \<open>Facts about searching lists and sequencing runs\<close>

lemma find_first:
  "list_all (\<lambda>x. \<not> P x) pre \<Longrightarrow> P b \<Longrightarrow> find P (pre @ b # post) = Some b"
  by (induction pre) auto

lemma find_none: "list_all (\<lambda>x. \<not> P x) xs \<Longrightarrow> find P xs = None"
  by (induction xs) auto

lemma pbind_Ok [simp]: "pbind (tr, Ok x) f = (tr @ fst (f x), snd (f x))"
  by (simp add: pbind_def)

lemma pbind_Fail [simp]: "pbind (tr, Fail e) f = (tr, Fail e)"
  by (simp add: pbind_def)

lemma pbind_Exit [simp]: "pbind (tr, Exit) f = (tr, Exit)"
  by (simp add: pbind_def)

lemma is_live_or_stage_DEV: "\<not> is_live_or_stage (env_of_name ''DEV - x'')"
  by (simp add: is_live_or_stage_def env_of_name_def js_split_def contains_ci_def contains_def
      indexOf_def lower_def lower_char_def)

lemma is_live_or_stage_STAGE: "is_live_or_stage (env_of_name ''STAGE - y'')"
  by (simp add: is_live_or_stage_def env_of_name_def js_split_def contains_ci_def contains_def
      indexOf_def lower_def lower_char_def)

lemma cfg_default_simps:
  "STAGE cfg_default = JStr ''backup''"
  "IS_QUICK_TEST cfg_default = JBool False"
  "BASE_THEME cfg_default = JBool False"
  by (simp_all add: cfg_default_def config_of_env_def or_default_def)

section \<open>Facts about the search for a staging theme\<close>

lemma reduce_append:
  "reduce f a (xs @ ys) = (case reduce f a xs of Inl e \<Rightarrow> Inl e | Inr a' \<Rightarrow> reduce f a' ys)"
  by (induction xs arbitrary: a) (auto split: sum.splits)

lemma reduce_found: "reduce (found_step w commits fl) (Some x) ts = Inr (Some x)"
  by (induction ts) (auto simp: found_step_def)

lemma search_split:
  "isAlreadyDeployedThemeForBranch w pre branch commits fl = Inr None \<Longrightarrow>
   isAlreadyDeployedThemeForBranch w (pre @ t # post) branch commits fl =
     (case found_step w commits fl None t of
        Inl e \<Rightarrow> Inl e
      | Inr None \<Rightarrow> isAlreadyDeployedThemeForBranch w post branch commits fl
      | Inr (Some x) \<Rightarrow> Inr (Some x))"
  by (simp add: isAlreadyDeployedThemeForBranch_def reduce_append reduce_found
      split: sum.splits option.splits)

lemma commit_found_entry:
  assumes "m \<in> set commits" and "tilde_truthy (indexOf m tok)" and "[] \<notin> set commits"
  shows "commit_found commits tok"
proof -
  from assms(1,2) have "find (\<lambda>str. tilde_truthy (indexOf str tok)) commits \<noteq> None"
    by (auto simp: find_None_iff)
  then obtain s where s: "find (\<lambda>str. tilde_truthy (indexOf str tok)) commits = Some s" by blast
  then have "s \<in> set commits" by (auto simp: find_Some_iff)
  with assms(3) have "s \<noteq> []" by auto
  with s show ?thesis by (simp add: commit_found_def)
qed

lemma tilde_truthy_empty: "tilde_truthy (indexOf s [])"
  by (simp add: indexOf_def index_from_empty tilde_truthy_def)

lemma commit_found_empty_token:
  "commits \<noteq> [] \<Longrightarrow> [] \<notin> set commits \<Longrightarrow> commit_found commits []"
  by (cases commits) (auto intro: commit_found_entry [where m = "hd commits"] simp: tilde_truthy_empty)

lemma cherry_commits_nonempty_entries: "[] \<notin> set (cherry_commits out)"
  by (simp add: cherry_commits_def)

lemma found_step_accept:
  assumes "is_staging (env_of_name (name t))"
    and "commit_token (commit_of_name (name t)) = Inr tok"
    and "commit_found commits tok"
    and "fl \<longrightarrow> \<not> updated_at t < now w - seven_days"
  shows "found_step w commits fl None t = Inr (Some t)"
  using assms by (auto simp: found_step_def)


lemmas string_eval =
  js_split_def indexOf_def tilde_truthy_def contains_def contains_ci_def lower_def
  lower_char_def trim_def is_space_def

lemmas search_eval =
  isAlreadyDeployedThemeForBranch_def found_step_def commit_of_name_def env_of_name_def
  commit_token_def commit_found_def is_staging_def paren_group_def paren_group_line_def
  split_last_def is_line_terminator_def

lemma cherry_commits_example:
  "cherry_commits out_cherry = [''abc123 fix the bug'', ''def456 add a test'']"
  by (simp add: cherry_commits_def out_cherry_def strip_marker.simps string_eval)

lemma is_live_or_stage_LIVE: "is_live_or_stage (env_of_name ''LIVE - shop'')"
  by (simp add: is_live_or_stage_def env_of_name_def string_eval)

lemmas run_eval =
  duplicateCurrentBase_def getBase_def then_base_def downloadTheme_def uploadBaseToNewTheme_def
  buildAndDeploy_def of_err_def TMP_DIR_def world_ok_def

lemma active_branch_example: "active_branch out_feature = Some ''feature/x''"
  by (simp add: active_branch_def out_feature_def active_step_def string_eval)

lemma is_work_branch_feature: "is_work_branch (Some ''feature/x'')"
  by (simp add: is_work_branch_def branch_text_def string_eval)

lemma not_develop_feature: "\<not> contains ''develop'' (branch_text (Some ''feature/x''))"
  by (simp add: branch_text_def string_eval)

section \<open>Facts about the calls of a run\<close>





lemma quiet_simps [simp]:
  "quiet (Log s)" "quiet (Mkdir d)" "quiet (Chdir d)" "quiet HttpGetThemes" "quiet ReadTmpConfig"
  "quiet (Brrl a)" "quiet ProcessExit" "\<not> quiet (TkDownload i)" "\<not> quiet (TkNew n)"
  "quiet (Exec c) = (\<not> starts_with ''rm '' c)"
  by (simp_all add: quiet_def is_duplication_def is_removal_def)















lemma pbind_unit [simp]: "pbind ([], Ok x) f = f x"
  by (simp add: pbind_def)

lemma getBase_cases:
  "getBase cfg themes fp = ([], Fail TypeError) \<or>
   (\<exists>b. getBase cfg themes fp = ([], Ok (Promised b))) \<or>
   (\<exists>u. getBase cfg themes fp = ([], Ok (Unwrapped u)) \<and> truthy (BASE_THEME cfg)) \<or>
   getBase cfg themes fp =
     ([Log ''No base theme could be found. Duplication not possible.'', ProcessExit], Exit)"
  by (simp add: getBase_def Let_def split: option.splits)

lemma is_work_branch_fhb:
  "contains_ci ''feature'' (branch_text branch) \<or> contains_ci ''hotfix'' (branch_text branch)
   \<or> contains_ci ''bugfix'' (branch_text branch) \<Longrightarrow> is_work_branch branch"
  by (auto simp: is_work_branch_def)

lemma cfg_quick_simps:
  "STAGE cfg_quick = JStr ''backup''"
  "IS_QUICK_TEST cfg_quick = JStr ''1''"
  "BASE_THEME cfg_quick = JBool False"
  by (simp_all add: cfg_quick_def config_of_env_def or_default_def)


lemma search_live_main:
  "isAlreadyDeployedThemeForBranch w [live_main] branch commits fl = Inr None"
  by (simp add: live_main_def search_eval string_eval)





section \<open>Parsing a theme name\<close>




section \<open>Which staging theme the search selects\<close>

text \<open>
  Claim C10. A theme whose name has no separator \<open>' - '\<close> and matches \<open>stage\<close> or
  \<open>staging\<close> as a whole has the empty commit token, and for every non-empty commit list
  that \<open>git cherry\<close> yields it is selected as the deployed theme of the branch, when no
  theme before it in the list is, and, if the freshness check is on (the branch is
  develop), when it is not older than seven days.
\<close>

theorem bare_stage_name_selected:
  assumes nosep: "\<not> contains '' - '' (name t)"
    and stg: "is_staging (name t)"
    and ne: "cherry_commits out \<noteq> []"
    and fresh: "noLessThan7DaysOld \<longrightarrow> \<not> updated_at t < now w - seven_days"
    and first: "isAlreadyDeployedThemeForBranch w pre branch (cherry_commits out)
                  noLessThan7DaysOld = Inr None"
  shows "commit_token (commit_of_name (name t)) = Inr [] \<and>
         isAlreadyDeployedThemeForBranch w (pre @ t # post) branch (cherry_commits out)
           noLessThan7DaysOld = Inr (Some t)"
proof -
  from nosep have tok: "commit_token (commit_of_name (name t)) = Inr []"
    by (simp add: commit_of_name_no_sep commit_token_empty)
  from nosep stg have env: "is_staging (env_of_name (name t))"
    by (simp add: env_of_name_no_sep)
  from ne have cf: "commit_found (cherry_commits out) []"
    by (rule commit_found_empty_token) (rule cherry_commits_nonempty_entries)
  from env tok cf fresh
  have "found_step w (cherry_commits out) noLessThan7DaysOld None t = Inr (Some t)"
    by (rule found_step_accept)
  with first tok show ?thesis by (simp add: search_split)
qed

text \<open>
  The theorem at a theme named \<open>STAGE\<close>, listed after a published \<open>DEV - x\<close> and before
  \<open>STAGE - y\<close>, on the branch develop with two commits.
\<close>

theorem bare_stage_name_selected_witness:
  "\<not> contains '' - '' (name stage_bare) \<and> is_staging (name stage_bare) \<and>
   cherry_commits out_cherry \<noteq> [] \<and>
   \<not> updated_at stage_bare < now (world_ok out_feature out_cherry [] 0) - seven_days \<and>
   isAlreadyDeployedThemeForBranch (world_ok out_feature out_cherry [] 0) [dev_main]
     (Some ''develop'') (cherry_commits out_cherry) True = Inr None \<and>
   commit_token (commit_of_name (name stage_bare)) = Inr [] \<and>
   isAlreadyDeployedThemeForBranch (world_ok out_feature out_cherry [] 0)
     ([dev_main] @ stage_bare # [stage_y])
     (Some ''develop'') (cherry_commits out_cherry) True = Inr (Some stage_bare)"
proof -
  let ?w = "world_ok out_feature out_cherry [] 0"
  have nosep: "\<not> contains '' - '' (name stage_bare)"
    by (simp add: stage_bare_def contains_def indexOf_def)
  have stg: "is_staging (name stage_bare)"
    by (simp add: stage_bare_def is_staging_def string_eval)
  have ne: "cherry_commits out_cherry \<noteq> []"
    by (simp add: cherry_commits_example)
  have fresh: "\<not> updated_at stage_bare < now ?w - seven_days"
    by (simp add: stage_bare_def world_ok_def seven_days_def)
  have first: "isAlreadyDeployedThemeForBranch ?w [dev_main] (Some ''develop'')
      (cherry_commits out_cherry) True = Inr None"
    by (simp add: cherry_commits_example dev_main_def search_eval string_eval)
  from fresh have fresh': "True \<longrightarrow> \<not> updated_at stage_bare < now ?w - seven_days" by simp
  from bare_stage_name_selected [OF nosep stg ne fresh' first, of "[stage_y]"]
    nosep stg ne fresh first
  show ?thesis by simp
qed



section \<open>Which base the selection gives\<close>

text \<open>
  Claim C3. With no explicit base id, \<open>forcePublished\<close> not requested and a published
  theme (the first of role \<open>main\<close>) whose environment tag matches neither \<open>live\<close> nor
  \<open>stage\<close>, \<open>getBase\<close> gives the first theme of the list, in the order given, whose tag
  matches \<open>live\<close> or \<open>stage\<close>, and that theme is not the published one. For the list of a
  published \<open>DEV - x\<close> and a \<open>STAGE - y\<close> of role \<open>other\<close>, it gives \<open>STAGE - y\<close>.
\<close>

theorem getBase_first_live_or_stage:
  "(\<not> truthy (BASE_THEME cfg) \<and>
    find (\<lambda>t. role t = ''main'') (pre @ b # post) = Some p \<and>
    \<not> is_live_or_stage (env_of_name (name p)) \<and>
    list_all (\<lambda>t. \<not> is_live_or_stage (env_of_name (name t))) pre \<and>
    is_live_or_stage (env_of_name (name b))
    \<longrightarrow> getBase cfg (pre @ b # post) False = ([], Ok (Promised b)) \<and> b \<noteq> p) \<and>
   (\<not> truthy (BASE_THEME cfg)
    \<longrightarrow> getBase cfg
          [\<lparr> theme_id = i, name = ''DEV - x'', role = ''main'', updated_at = u \<rparr>,
           \<lparr> theme_id = j, name = ''STAGE - y'', role = ''other'', updated_at = v \<rparr>] False
        = ([], Ok (Promised
                    \<lparr> theme_id = j, name = ''STAGE - y'', role = ''other'', updated_at = v \<rparr>)))"
proof (intro conjI impI)
  assume h: "\<not> truthy (BASE_THEME cfg) \<and>
    find (\<lambda>t. role t = ''main'') (pre @ b # post) = Some p \<and>
    \<not> is_live_or_stage (env_of_name (name p)) \<and>
    list_all (\<lambda>t. \<not> is_live_or_stage (env_of_name (name t))) pre \<and>
    is_live_or_stage (env_of_name (name b))"
  then have "find (\<lambda>t. is_live_or_stage (env_of_name (name t))) (pre @ b # post) = Some b"
    by (simp add: find_first)
  with h show "getBase cfg (pre @ b # post) False = ([], Ok (Promised b))"
    by (simp add: getBase_def)
  from h show "b \<noteq> p" by auto
next
  assume "\<not> truthy (BASE_THEME cfg)"
  then show "getBase cfg
          [\<lparr> theme_id = i, name = ''DEV - x'', role = ''main'', updated_at = u \<rparr>,
           \<lparr> theme_id = j, name = ''STAGE - y'', role = ''other'', updated_at = v \<rparr>] False
        = ([], Ok (Promised
                    \<lparr> theme_id = j, name = ''STAGE - y'', role = ''other'', updated_at = v \<rparr>))"
    by (simp add: getBase_def is_live_or_stage_DEV is_live_or_stage_STAGE)
qed

text \<open>
  The theorem at the list of a published \<open>DEV - x\<close>, then \<open>STAGE - y\<close>, then a
  \<open>LIVE - shop\<close>: the earlier of the two candidates is chosen.
\<close>

theorem getBase_first_live_or_stage_witness:
  "\<not> truthy (BASE_THEME cfg_default) \<and>
   find (\<lambda>t. role t = ''main'') ([dev_main] @ stage_y # [live_main]) = Some dev_main \<and>
   \<not> is_live_or_stage (env_of_name (name dev_main)) \<and>
   list_all (\<lambda>t. \<not> is_live_or_stage (env_of_name (name t))) [dev_main] \<and>
   is_live_or_stage (env_of_name (name stage_y)) \<and>
   getBase cfg_default ([dev_main] @ stage_y # [live_main]) False = ([], Ok (Promised stage_y)) \<and>
   stage_y \<noteq> dev_main \<and>
   getBase cfg_default [dev_main, stage_y] False = ([], Ok (Promised stage_y))"
proof -
  have h: "\<not> truthy (BASE_THEME cfg_default) \<and>
   find (\<lambda>t. role t = ''main'') ([dev_main] @ stage_y # [live_main]) = Some dev_main \<and>
   \<not> is_live_or_stage (env_of_name (name dev_main)) \<and>
   list_all (\<lambda>t. \<not> is_live_or_stage (env_of_name (name t))) [dev_main] \<and>
   is_live_or_stage (env_of_name (name stage_y))"
    by (simp add: cfg_default_simps dev_main_def stage_y_def
        is_live_or_stage_DEV is_live_or_stage_STAGE)
  from h getBase_first_live_or_stage
    [of cfg_default "[dev_main]" stage_y "[live_main]" dev_main "JNum 1" 0 "JNum 2" 0]
  show ?thesis unfolding dev_main_def stage_y_def by blast
qed

text \<open>
  Claim C4. With \<open>BASE_THEME\<close> configured and a list that holds a published theme,
  \<open>getBase\<close> returns the first theme whose id prints as \<open>BASE_THEME\<close> does, whatever its
  role and name and whatever \<open>forcePublished\<close> is. Ids are compared as strings: the
  number 123 and the string \<open>123\<close> are equal. The theme is returned as it is, not
  wrapped in a promise.
\<close>

theorem getBase_explicit_base:
  "(truthy (BASE_THEME cfg) \<and>
    find (\<lambda>t. role t = ''main'') (pre @ b # post) \<noteq> None \<and>
    list_all (\<lambda>t. js_string (theme_id t) \<noteq> js_string (BASE_THEME cfg)) pre \<and>
    js_string (theme_id b) = js_string (BASE_THEME cfg)
    \<longrightarrow> getBase cfg (pre @ b # post) forcePublished = ([], Ok (Unwrapped (Some b)))) \<and>
   js_string (JNum 123) = js_string (JStr ''123'')"
proof (intro conjI impI)
  assume h: "truthy (BASE_THEME cfg) \<and>
    find (\<lambda>t. role t = ''main'') (pre @ b # post) \<noteq> None \<and>
    list_all (\<lambda>t. js_string (theme_id t) \<noteq> js_string (BASE_THEME cfg)) pre \<and>
    js_string (theme_id b) = js_string (BASE_THEME cfg)"
  then obtain p where p: "find (\<lambda>t. role t = ''main'') (pre @ b # post) = Some p" by blast
  from h have
    "find (\<lambda>t. js_string (theme_id t) = js_string (BASE_THEME cfg)) (pre @ b # post) = Some b"
    by (simp add: find_first)
  with h p show "getBase cfg (pre @ b # post) forcePublished = ([], Ok (Unwrapped (Some b)))"
    by (simp add: getBase_def)
next
  show "js_string (JNum 123) = js_string (JStr ''123'')"
    by (simp add: string_of_nat.simps)
qed

text \<open>
  The theorem at the override \<open>123\<close> (a string) against the numeric id 123 of an
  unpublished \<open>DEV\<close> theme, with \<open>forcePublished\<close> set; and at the numeric override 123
  against the string id \<open>123\<close>.
\<close>

theorem getBase_explicit_base_witness:
  "getBase (cfg_default\<lparr>BASE_THEME := JStr ''123''\<rparr>) ([live_main] @ dev_123 # [stage_y]) True
     = ([], Ok (Unwrapped (Some dev_123))) \<and>
   getBase (cfg_default\<lparr>BASE_THEME := JNum 123\<rparr>)
       ([live_main] @ dev_123\<lparr>theme_id := JStr ''123''\<rparr> # [stage_y]) False
     = ([], Ok (Unwrapped (Some (dev_123\<lparr>theme_id := JStr ''123''\<rparr>))))"
proof -
  have a: "truthy (BASE_THEME (cfg_default\<lparr>BASE_THEME := JStr ''123''\<rparr>)) \<and>
    find (\<lambda>t. role t = ''main'') ([live_main] @ dev_123 # [stage_y]) \<noteq> None \<and>
    list_all (\<lambda>t. js_string (theme_id t)
        \<noteq> js_string (BASE_THEME (cfg_default\<lparr>BASE_THEME := JStr ''123''\<rparr>))) [live_main] \<and>
    js_string (theme_id dev_123) = js_string (BASE_THEME (cfg_default\<lparr>BASE_THEME := JStr ''123''\<rparr>))"
    by (simp add: live_main_def dev_123_def stage_y_def string_of_nat.simps)
  have b: "truthy (BASE_THEME (cfg_default\<lparr>BASE_THEME := JNum 123\<rparr>)) \<and>
    find (\<lambda>t. role t = ''main'')
      ([live_main] @ dev_123\<lparr>theme_id := JStr ''123''\<rparr> # [stage_y]) \<noteq> None \<and>
    list_all (\<lambda>t. js_string (theme_id t)
        \<noteq> js_string (BASE_THEME (cfg_default\<lparr>BASE_THEME := JNum 123\<rparr>))) [live_main] \<and>
    js_string (theme_id (dev_123\<lparr>theme_id := JStr ''123''\<rparr>))
      = js_string (BASE_THEME (cfg_default\<lparr>BASE_THEME := JNum 123\<rparr>))"
    by (simp add: live_main_def dev_123_def stage_y_def string_of_nat.simps)
  from a getBase_explicit_base
    [of "cfg_default\<lparr>BASE_THEME := JStr ''123''\<rparr>" "[live_main]" dev_123 "[stage_y]" True]
  have c: "getBase (cfg_default\<lparr>BASE_THEME := JStr ''123''\<rparr>)
      ([live_main] @ dev_123 # [stage_y]) True = ([], Ok (Unwrapped (Some dev_123)))"
    by blast
  from b getBase_explicit_base
    [of "cfg_default\<lparr>BASE_THEME := JNum 123\<rparr>" "[live_main]"
        "dev_123\<lparr>theme_id := JStr ''123''\<rparr>" "[stage_y]" False]
  have d: "getBase (cfg_default\<lparr>BASE_THEME := JNum 123\<rparr>)
       ([live_main] @ dev_123\<lparr>theme_id := JStr ''123''\<rparr> # [stage_y]) False
     = ([], Ok (Unwrapped (Some (dev_123\<lparr>theme_id := JStr ''123''\<rparr>))))"
    by blast
  from c d show ?thesis by blast
qed

text \<open>
  Claim C9. With no explicit base id, \<open>forcePublished\<close> not set, a published theme whose
  tag matches neither \<open>live\<close> nor \<open>stage\<close>, and no theme of the list whose tag does,
  \<open>getBase\<close> logs the error and ends the process. A run that reaches this point (a
  feature, hotfix, bugfix or develop branch with no staging theme found) ends there: its
  last call is \<open>process.exit()\<close>, its outcome is the exit and not a rejection, and the
  removal of the scratch directory is not run.
\<close>

theorem getBase_no_fallback_exits:
  assumes base: "\<not> truthy (BASE_THEME cfg)"
    and pub: "find (\<lambda>t. role t = ''main'') themes = Some p"
    and dev: "\<not> is_live_or_stage (env_of_name (name p))"
    and none: "list_all (\<lambda>t. \<not> is_live_or_stage (env_of_name (name t))) themes"
  shows "getBase cfg themes False =
           ([Log ''No base theme could be found. Duplication not possible.'', ProcessExit],
            Exit) \<and>
         (join3 (prepareTmp cfg w) (getBranch w) (listThemes w) = (tr1, Ok (c, branch, themes)) \<and>
          getCommits w branch = (tr2, Ok commits) \<and>
          is_work_branch branch \<and>
          isAlreadyDeployedThemeForBranch w themes branch commits
            (contains ''develop'' (branch_text branch)) = Inr None
          \<longrightarrow> run cfg w =
                (tr1 @ tr2 @
                 [Log ''Running main routine'', Log ''No existing base found'',
                  Log ''No base theme could be found. Duplication not possible.'', ProcessExit],
                 Exit))"
proof -
  from none have "find (\<lambda>t. is_live_or_stage (env_of_name (name t))) themes = None"
    by (rule find_none)
  with base pub dev have gb: "getBase cfg themes False =
      ([Log ''No base theme could be found. Duplication not possible.'', ProcessExit], Exit)"
    by (simp add: getBase_def)
  then have dup: "duplicateCurrentBase cfg w themes False =
      ([Log ''No base theme could be found. Duplication not possible.'', ProcessExit], Exit)"
    by (simp add: duplicateCurrentBase_def)
  show ?thesis
  proof (intro conjI impI)
    show "getBase cfg themes False =
      ([Log ''No base theme could be found. Duplication not possible.'', ProcessExit], Exit)"
      by (rule gb)
  next
    assume h: "join3 (prepareTmp cfg w) (getBranch w) (listThemes w)
            = (tr1, Ok (c, branch, themes)) \<and>
          getCommits w branch = (tr2, Ok commits) \<and>
          is_work_branch branch \<and>
          isAlreadyDeployedThemeForBranch w themes branch commits
            (contains ''develop'' (branch_text branch)) = Inr None"
    then have "mainRoutine cfg w branch themes commits =
        ([Log ''Running main routine'', Log ''No existing base found'',
          Log ''No base theme could be found. Duplication not possible.'', ProcessExit], Exit)"
      by (simp add: mainRoutine_def lift_def dup)
    with h show "run cfg w =
                (tr1 @ tr2 @
                 [Log ''Running main routine'', Log ''No existing base found'',
                  Log ''No base theme could be found. Duplication not possible.'', ProcessExit],
                 Exit)"
      by (simp add: run_def)
  qed
qed

text \<open>
  The theorem at a run on the branch \<open>feature/x\<close> of a store whose only theme is the
  published \<open>DEV - x\<close>.
\<close>

theorem getBase_no_fallback_exits_witness:
  "getBase cfg_default [dev_main] False =
     ([Log ''No base theme could be found. Duplication not possible.'', ProcessExit], Exit) \<and>
   snd (run cfg_default (world_ok out_feature out_cherry [dev_main] 0)) = Exit \<and>
   run cfg_default (world_ok out_feature out_cherry [dev_main] 0) =
     (fst (join3 (prepareTmp cfg_default (world_ok out_feature out_cherry [dev_main] 0))
             (getBranch (world_ok out_feature out_cherry [dev_main] 0))
             (listThemes (world_ok out_feature out_cherry [dev_main] 0))) @
      fst (getCommits (world_ok out_feature out_cherry [dev_main] 0) (Some ''feature/x'')) @
      [Log ''Running main routine'', Log ''No existing base found'',
       Log ''No base theme could be found. Duplication not possible.'', ProcessExit],
      Exit)"
proof -
  let ?w = "world_ok out_feature out_cherry [dev_main] 0"
  have base: "\<not> truthy (BASE_THEME cfg_default)" by (simp add: cfg_default_simps)
  have pub: "find (\<lambda>t. role t = ''main'') [dev_main] = Some dev_main"
    by (simp add: dev_main_def)
  have dev: "\<not> is_live_or_stage (env_of_name (name dev_main))"
    by (simp add: dev_main_def is_live_or_stage_DEV)
  have none: "list_all (\<lambda>t. \<not> is_live_or_stage (env_of_name (name t))) [dev_main]"
    by (simp add: dev_main_def is_live_or_stage_DEV)
  have br: "active_branch out_feature = Some ''feature/x''"
    by (simp add: active_branch_def out_feature_def js_split_def active_step_def
        tilde_truthy_def indexOf_def trim_def is_space_def)
  have j: "join3 (prepareTmp cfg_default ?w) (getBranch ?w) (listThemes ?w)
      = (fst (join3 (prepareTmp cfg_default ?w) (getBranch ?w) (listThemes ?w)),
         Ok ((), Some ''feature/x'', [dev_main]))"
    by (simp add: join3_def prepareTmp_def getBranch_def listThemes_def world_ok_def
        cfg_default_simps of_err_def br)
  have gc: "getCommits ?w (Some ''feature/x'')
      = (fst (getCommits ?w (Some ''feature/x'')),
         Ok (cherry_commits (snd (git_cherry ?w (gitBase (Some ''feature/x''))))))"
    by (simp add: getCommits_def world_ok_def)
  have wb: "is_work_branch (Some ''feature/x'')"
    by (simp add: is_work_branch_def branch_text_def contains_ci_def contains_def indexOf_def
        lower_def lower_char_def)
  have search: "isAlreadyDeployedThemeForBranch ?w [dev_main] (Some ''feature/x'')
      (cherry_commits (snd (git_cherry ?w (gitBase (Some ''feature/x'')))))
      (contains ''develop'' (branch_text (Some ''feature/x''))) = Inr None"
    by (simp add: isAlreadyDeployedThemeForBranch_def found_step_def dev_main_def
        commit_of_name_def env_of_name_def js_split_def commit_token_def tilde_truthy_def
        indexOf_def is_staging_def contains_ci_def contains_def lower_def lower_char_def)
  from getBase_no_fallback_exits [OF base pub dev none, of ?w _ "()" "Some ''feature/x''" _
      "cherry_commits (snd (git_cherry ?w (gitBase (Some ''feature/x''))))"]
    j gc wb search
  show ?thesis by simp
qed

section \<open>Failures of the source-control commands\<close>

text \<open>
  Claim C6 says that a failure of \<open>git branch\<close>, \<open>git fetch --all\<close> or \<open>git cherry\<close>
  rejects the operation with the error of the command. The first two do. A failure of
  \<open>git cherry\<close> does not: its callback never reads \<open>err\<close>, and the operation resolves
  with the commits parsed from whatever the command printed. In the run below
  \<open>git cherry\<close> fails and prints nothing: the commit list is empty, the staging theme of
  the branch is not found, and the run duplicates the published theme, deploys to the
  copy and ends normally.
\<close>

theorem git_cherry_error_ignored:
  "snd (getBranch (w\<lparr>git_branch := (Some e, out)\<rparr>)) = Fail e \<and>
   snd (getCommits (w\<lparr>git_fetch := Some e\<rparr>) branch) = Fail e \<and>
   snd (getCommits (w\<lparr>git_fetch := None, git_cherry := (\<lambda>base. (Some e, out))\<rparr>) branch)
     = Ok (cherry_commits out) \<and>
   getCommits world_cherry_fails (Some ''feature/x'') =
     ([Log (''Running '' @ [CHR 0x27] @ ''git fetch --all'' @ [CHR 0x27]),
       Exec ''git fetch --all'',
       Log (''git '' @ [CHR 0x27] @ ''cherry -v develop'' @ [CHR 0x27]),
       Exec ''git cherry -v develop''], Ok []) \<and>
   run cfg_default world_cherry_fails =
     ([Log ''Removing existing tmp directory'', Exec ''rm -r /repo/tmp'',
       Mkdir ''/repo/tmp'', Chdir ''/repo/tmp'', Log ''Getting current branch'',
       Exec ''git branch'', HttpGetThemes, Log ''Existing themes fetched'',
       Log (''Running '' @ [CHR 0x27] @ ''git fetch --all'' @ [CHR 0x27]),
       Exec ''git fetch --all'',
       Log (''git '' @ [CHR 0x27] @ ''cherry -v develop'' @ [CHR 0x27]),
       Exec ''git cherry -v develop'', Log ''Running main routine'',
       Log ''No existing base found'', Log ''Downloading theme'',
       Log ''Theme Name: LIVE - shop'', TkDownload (JNum 1),
       Log ''Uploading new theme!'', TkNew ''[DEPLOYMENT IN PROGRESS]'',
       ReadTmpConfig, Chdir ''/repo/tmp/..'', Brrl (Value (JNum 42)),
       Log ''Removing tmp directory'', Exec ''rm -r /repo/tmp''],
      Ok ())"
proof -
  let ?w = world_cherry_fails
  have gen: "snd (getBranch (w\<lparr>git_branch := (Some e, out)\<rparr>)) = Fail e \<and>
   snd (getCommits (w\<lparr>git_fetch := Some e\<rparr>) branch) = Fail e \<and>
   snd (getCommits (w\<lparr>git_fetch := None, git_cherry := (\<lambda>base. (Some e, out))\<rparr>) branch)
     = Ok (cherry_commits out)"
    by (simp add: getBranch_def getCommits_def)
  have gb: "gitBase (Some ''feature/x'') = ''develop''"
    by (simp add: gitBase_def not_develop_feature)
  have gc: "getCommits ?w (Some ''feature/x'') =
     ([Log (''Running '' @ [CHR 0x27] @ ''git fetch --all'' @ [CHR 0x27]),
       Exec ''git fetch --all'',
       Log (''git '' @ [CHR 0x27] @ ''cherry -v develop'' @ [CHR 0x27]),
       Exec ''git cherry -v develop''], Ok [])"
    by (simp add: getCommits_def gb world_cherry_fails_def world_ok_def cherry_commits_def
        js_split_def trim_def)
  have j: "join3 (prepareTmp cfg_default ?w) (getBranch ?w) (listThemes ?w) =
     ([Log ''Removing existing tmp directory'', Exec ''rm -r /repo/tmp'',
       Mkdir ''/repo/tmp'', Chdir ''/repo/tmp'', Log ''Getting current branch'',
       Exec ''git branch'', HttpGetThemes, Log ''Existing themes fetched''],
      Ok ((), Some ''feature/x'', [live_main, stage_abc 0]))"
    by (simp add: join3_def prepareTmp_def getBranch_def listThemes_def world_cherry_fails_def
        world_ok_def cfg_default_simps of_err_def active_branch_example TMP_DIR_def
        live_main_def stage_abc_def)
  have search: "isAlreadyDeployedThemeForBranch ?w [live_main, stage_abc 0] (Some ''feature/x'') []
      False = Inr None"
    by (simp add: live_main_def stage_abc_def search_eval string_eval)
  have dup: "duplicateCurrentBase cfg_default ?w [live_main, stage_abc 0] False =
      ([Log ''Downloading theme'', Log ''Theme Name: LIVE - shop'', TkDownload (JNum 1),
        Log ''Uploading new theme!'', TkNew ''[DEPLOYMENT IN PROGRESS]'', ReadTmpConfig],
       Ok (JNum 42))"
    using is_live_or_stage_LIVE
    by (simp add: duplicateCurrentBase_def getBase_def cfg_default_simps then_base_def
          downloadTheme_def uploadBaseToNewTheme_def of_err_def world_cherry_fails_def
          world_ok_def live_main_def)
  have mr: "mainRoutine cfg_default ?w (Some ''feature/x'') [live_main, stage_abc 0] [] =
     ([Log ''Running main routine'',
       Log ''No existing base found'', Log ''Downloading theme'',
       Log ''Theme Name: LIVE - shop'', TkDownload (JNum 1),
       Log ''Uploading new theme!'', TkNew ''[DEPLOYMENT IN PROGRESS]'',
       ReadTmpConfig, Chdir ''/repo/tmp/..'', Brrl (Value (JNum 42))], Ok ())"
    by (simp add: mainRoutine_def is_work_branch_feature not_develop_feature search lift_def dup)
      (simp add: buildAndDeploy_def of_err_def TMP_DIR_def world_cherry_fails_def world_ok_def)
  have rm: "removeTmp cfg_default ?w = ([Log ''Removing tmp directory'', Exec ''rm -r /repo/tmp''], Ok ())"
    by (simp add: removeTmp_def cfg_default_simps TMP_DIR_def of_err_def world_cherry_fails_def
        world_ok_def)
  have r: "run cfg_default ?w =
     ([Log ''Removing existing tmp directory'', Exec ''rm -r /repo/tmp'',
       Mkdir ''/repo/tmp'', Chdir ''/repo/tmp'', Log ''Getting current branch'',
       Exec ''git branch'', HttpGetThemes, Log ''Existing themes fetched'',
       Log (''Running '' @ [CHR 0x27] @ ''git fetch --all'' @ [CHR 0x27]),
       Exec ''git fetch --all'',
       Log (''git '' @ [CHR 0x27] @ ''cherry -v develop'' @ [CHR 0x27]),
       Exec ''git cherry -v develop'', Log ''Running main routine'',
       Log ''No existing base found'', Log ''Downloading theme'',
       Log ''Theme Name: LIVE - shop'', TkDownload (JNum 1),
       Log ''Uploading new theme!'', TkNew ''[DEPLOYMENT IN PROGRESS]'',
       ReadTmpConfig, Chdir ''/repo/tmp/..'', Brrl (Value (JNum 42)),
       Log ''Removing tmp directory'', Exec ''rm -r /repo/tmp''],
      Ok ())"
    by (simp add: run_def j gc mr rm)
  from gen gc r show ?thesis by blast
qed

section \<open>The paths of the main routine\<close>

text \<open>
  Claim C1, as the script has it. On a branch whose name matches \<open>feature\<close>, \<open>hotfix\<close> or
  \<open>bugfix\<close>, when the search finds no staging theme and no explicit base id is
  configured, the main routine runs base selection and then, on the base it yields, the
  steps of the duplication in order (the download of the base, the creation of the new
  theme, the reading of the new id from the scratch configuration) and the deploy to
  that id, each step only when the ones before it succeeded. When all of them succeed
  outside quick-test mode, the calls are the download, the creation, the reading and the
  deploy, in this order. A deploy on this path always targets the id read from the
  scratch configuration, and outside quick-test mode it comes after a successful
  download and creation. (In quick-test mode the download and the creation are skipped,
  and the deploy targets whatever id the scratch configuration holds.)
\<close>

theorem work_branch_without_staging_theme:
  assumes fhb: "contains_ci ''feature'' (branch_text branch) \<or>
      contains_ci ''hotfix'' (branch_text branch) \<or> contains_ci ''bugfix'' (branch_text branch)"
    and none: "isAlreadyDeployedThemeForBranch w themes branch commits
                 (contains ''develop'' (branch_text branch)) = Inr None"
    and nobase: "\<not> truthy (BASE_THEME cfg)"
  shows "mainRoutine cfg w branch themes commits =
           pbind ([Log ''Running main routine'', Log ''No existing base found''], Ok ())
             (\<lambda>u. pbind (getBase cfg themes False)
                (\<lambda>r. then_base r
                   (\<lambda>b. pbind (downloadTheme cfg w b)
                      (\<lambda>u. pbind (uploadBaseToNewTheme cfg w)
                         (\<lambda>new. buildAndDeploy w (Value new)))))) \<and>
         (getBase cfg themes False = ([], Ok (Promised b)) \<and> \<not> truthy (IS_QUICK_TEST cfg) \<and>
          tk_download w (theme_id b) \<and> tk_new w = None \<and> tmp_config_theme_id w = Inr new \<and>
          chdir_root w = None
          \<longrightarrow> mainRoutine cfg w branch themes commits =
                ([Log ''Running main routine'', Log ''No existing base found'',
                  Log ''Downloading theme'', Log (''Theme Name: '' @ name b),
                  TkDownload (theme_id b), Log ''Uploading new theme!'',
                  TkNew ''[DEPLOYMENT IN PROGRESS]'', ReadTmpConfig,
                  Chdir (TMP_DIR w @ ''/..''), Brrl (Value new)],
                 of_err (brrl w (Value new)))) \<and>
         (\<forall>a. Brrl a \<in> set (fst (mainRoutine cfg w branch themes commits)) \<longrightarrow>
            (\<exists>v c. a = Value v \<and> tmp_config_theme_id w = Inr v \<and>
               getBase cfg themes False = ([], Ok (Promised c)) \<and>
               (\<not> truthy (IS_QUICK_TEST cfg) \<longrightarrow>
                  tk_download w (theme_id c) \<and> tk_new w = None \<and>
                  TkDownload (theme_id c) \<in> set (fst (mainRoutine cfg w branch themes commits)) \<and>
                  TkNew ''[DEPLOYMENT IN PROGRESS]''
                    \<in> set (fst (mainRoutine cfg w branch themes commits)))))"
proof -
  from fhb have wb: "is_work_branch branch" by (rule is_work_branch_fhb)
  have A: "mainRoutine cfg w branch themes commits =
           pbind ([Log ''Running main routine'', Log ''No existing base found''], Ok ())
             (\<lambda>u. pbind (getBase cfg themes False)
                (\<lambda>r. then_base r
                   (\<lambda>b. pbind (downloadTheme cfg w b)
                      (\<lambda>u. pbind (uploadBaseToNewTheme cfg w)
                         (\<lambda>new. buildAndDeploy w (Value new))))))"
    by (cases "snd (getBase cfg themes False)")
      (auto simp: mainRoutine_def wb none lift_def duplicateCurrentBase_def pbind_def
        then_base_def split: outcome.splits base_ret.splits)
  have B: "getBase cfg themes False = ([], Ok (Promised b)) \<and> \<not> truthy (IS_QUICK_TEST cfg) \<and>
          tk_download w (theme_id b) \<and> tk_new w = None \<and> tmp_config_theme_id w = Inr new \<and>
          chdir_root w = None
          \<longrightarrow> mainRoutine cfg w branch themes commits =
                ([Log ''Running main routine'', Log ''No existing base found'',
                  Log ''Downloading theme'', Log (''Theme Name: '' @ name b),
                  TkDownload (theme_id b), Log ''Uploading new theme!'',
                  TkNew ''[DEPLOYMENT IN PROGRESS]'', ReadTmpConfig,
                  Chdir (TMP_DIR w @ ''/..''), Brrl (Value new)],
                 of_err (brrl w (Value new)))"
    unfolding A
    by (simp add: then_base_def downloadTheme_def uploadBaseToNewTheme_def buildAndDeploy_def
        of_err_def)
  have C: "\<forall>a. Brrl a \<in> set (fst (mainRoutine cfg w branch themes commits)) \<longrightarrow>
            (\<exists>v c. a = Value v \<and> tmp_config_theme_id w = Inr v \<and>
               getBase cfg themes False = ([], Ok (Promised c)) \<and>
               (\<not> truthy (IS_QUICK_TEST cfg) \<longrightarrow>
                  tk_download w (theme_id c) \<and> tk_new w = None \<and>
                  TkDownload (theme_id c) \<in> set (fst (mainRoutine cfg w branch themes commits)) \<and>
                  TkNew ''[DEPLOYMENT IN PROGRESS]''
                    \<in> set (fst (mainRoutine cfg w branch themes commits))))"
    unfolding A
    using getBase_cases [of cfg themes False]
    by (auto simp: then_base_def downloadTheme_def uploadBaseToNewTheme_def buildAndDeploy_def
        of_err_def pbind_def split: option.splits sum.splits if_splits)
  from A B C show ?thesis by blast
qed

text \<open>
  The theorem at a run on the branch \<open>feature/x\<close> of a store whose only theme is the
  published \<open>LIVE - shop\<close>, with every call succeeding.
\<close>

theorem work_branch_without_staging_theme_witness:
  "mainRoutine cfg_default (world_ok out_feature out_cherry [live_main] 0) (Some ''feature/x'')
     [live_main] (cherry_commits out_cherry) =
     ([Log ''Running main routine'', Log ''No existing base found'', Log ''Downloading theme'',
       Log ''Theme Name: LIVE - shop'', TkDownload (JNum 1), Log ''Uploading new theme!'',
       TkNew ''[DEPLOYMENT IN PROGRESS]'', ReadTmpConfig, Chdir ''/repo/tmp/..'',
       Brrl (Value (JNum 42))], Ok ())"
proof -
  let ?w = "world_ok out_feature out_cherry [live_main] 0"
  have fhb: "contains_ci ''feature'' (branch_text (Some ''feature/x'')) \<or>
      contains_ci ''hotfix'' (branch_text (Some ''feature/x'')) \<or>
      contains_ci ''bugfix'' (branch_text (Some ''feature/x''))"
    by (simp add: branch_text_def string_eval)
  have none: "isAlreadyDeployedThemeForBranch ?w [live_main] (Some ''feature/x'')
      (cherry_commits out_cherry) (contains ''develop'' (branch_text (Some ''feature/x''))) = Inr None"
    by (rule search_live_main)
  have nobase: "\<not> truthy (BASE_THEME cfg_default)" by (simp add: cfg_default_simps)
  have h: "getBase cfg_default [live_main] False = ([], Ok (Promised live_main)) \<and>
      \<not> truthy (IS_QUICK_TEST cfg_default) \<and>
      tk_download ?w (theme_id live_main) \<and> tk_new ?w = None \<and>
      tmp_config_theme_id ?w = Inr (JNum 42) \<and> chdir_root ?w = None"
    using is_live_or_stage_LIVE
    by (simp add: getBase_def cfg_default_simps world_ok_def live_main_def)
  from work_branch_without_staging_theme [OF fhb none nobase, of live_main "JNum 42"] h
  have "mainRoutine cfg_default ?w (Some ''feature/x'') [live_main] (cherry_commits out_cherry) =
     ([Log ''Running main routine'', Log ''No existing base found'',
       Log ''Downloading theme'', Log (''Theme Name: '' @ name live_main),
       TkDownload (theme_id live_main), Log ''Uploading new theme!'',
       TkNew ''[DEPLOYMENT IN PROGRESS]'', ReadTmpConfig,
       Chdir (TMP_DIR ?w @ ''/..''), Brrl (Value (JNum 42))],
      of_err (brrl ?w (Value (JNum 42))))"
    by blast
  then show ?thesis
    by (simp add: live_main_def TMP_DIR_def world_ok_def of_err_def)
qed

text \<open>
  The claim as the specification words it fails in quick-test mode: on the same branch
  and store, with \<open>IS_QUICK_TEST=1\<close>, the main routine makes no download and no
  creation call, and deploys to the id 42 that the scratch configuration already held.
\<close>

theorem quick_test_deploy_counterexample:
  "contains_ci ''feature'' (branch_text (Some ''feature/x'')) \<and>
   isAlreadyDeployedThemeForBranch (world_ok out_feature out_cherry [live_main] 0) [live_main]
     (Some ''feature/x'') (cherry_commits out_cherry)
     (contains ''develop'' (branch_text (Some ''feature/x''))) = Inr None \<and>
   mainRoutine cfg_quick (world_ok out_feature out_cherry [live_main] 0) (Some ''feature/x'')
     [live_main] (cherry_commits out_cherry) =
     ([Log ''Running main routine'', Log ''No existing base found'', ReadTmpConfig,
       Chdir ''/repo/tmp/..'', Brrl (Value (JNum 42))], Ok ())"
proof -
  let ?w = "world_ok out_feature out_cherry [live_main] 0"
  have a: "contains_ci ''feature'' (branch_text (Some ''feature/x''))"
    by (simp add: branch_text_def string_eval)
  have b: "isAlreadyDeployedThemeForBranch ?w [live_main]
     (Some ''feature/x'') (cherry_commits out_cherry)
     (contains ''develop'' (branch_text (Some ''feature/x''))) = Inr None"
    by (rule search_live_main)
  have gb: "getBase cfg_quick [live_main] False = ([], Ok (Promised live_main))"
    using is_live_or_stage_LIVE by (simp add: getBase_def cfg_quick_simps live_main_def)
  have c: "mainRoutine cfg_quick ?w (Some ''feature/x'') [live_main] (cherry_commits out_cherry) =
     ([Log ''Running main routine'', Log ''No existing base found'', ReadTmpConfig,
       Chdir ''/repo/tmp/..'', Brrl (Value (JNum 42))], Ok ())"
    by (simp add: mainRoutine_def is_work_branch_feature b lift_def duplicateCurrentBase_def gb
          then_base_def downloadTheme_def uploadBaseToNewTheme_def cfg_quick_simps)
      (simp add: buildAndDeploy_def of_err_def TMP_DIR_def world_ok_def)
  from a b c show ?thesis by blast
qed




section \<open>Quick-test mode\<close>



end
